theory Spec2Isabelle
  imports Main "HOL-Library.Word"
begin

section \<open>JavaScript strings\<close>

text \<open>
  A JavaScript string is a sequence of UTF-16 code units. The regular expressions of the
  source carry no \<open>u\<close> flag, so they match code unit by code unit.
\<close>

type_synonym code_unit = "16 word"
type_synonym jsstring = "code_unit list"

text \<open>
  The code units that \<open>String.prototype.trim\<close> strips and that the class escape \<open>\s\<close>
  accepts: ECMAScript WhiteSpace (TAB, VT, FF, SP, NBSP, ZWNBSP and the category Zs)
  together with LineTerminator (LF, CR, LS, PS).
\<close>

definition is_white_space :: "code_unit \<Rightarrow> bool" where
  "is_white_space c =
     (c = 0x0009 \<or> c = 0x000A \<or> c = 0x000B \<or> c = 0x000C \<or> c = 0x000D \<or> c = 0x0020 \<or>
      c = 0x00A0 \<or> c = 0x1680 \<or> (0x2000 \<le> c \<and> c \<le> 0x200A) \<or> c = 0x2028 \<or> c = 0x2029 \<or>
      c = 0x202F \<or> c = 0x205F \<or> c = 0x3000 \<or> c = 0xFEFF)"

text \<open>\<open>s.trim()\<close>: white space removed from both ends.\<close>

definition trim :: "jsstring \<Rightarrow> jsstring" where
  "trim s = rev (dropWhile is_white_space (rev (dropWhile is_white_space s)))"

text \<open>
  \<open>String.fromCodePoint\<close>: the code units of one code point. A code point above U+FFFF
  is a surrogate pair.
\<close>

definition fromCodePoint :: "nat \<Rightarrow> jsstring" where
  "fromCodePoint cp =
     (if cp < 0x10000 then [of_nat cp]
      else [of_nat (0xD800 + (cp - 0x10000) div 0x400),
            of_nat (0xDC00 + (cp - 0x10000) mod 0x400)])"

section \<open>The regular expressions of the source\<close>

text \<open>
  Both patterns of \<open>getSinhalaOutput\<close> are one character class repeated one or more times.
  A class is a list of items: a range \<open>a-b\<close> of code units or the escape \<open>\s\<close>.
\<close>

datatype class_item = Range code_unit code_unit | WhiteSpaceEscape

datatype regex = OneOrMore "class_item list"

fun item_accepts :: "class_item \<Rightarrow> code_unit \<Rightarrow> bool" where
  "item_accepts (Range lo hi) c = (lo \<le> c \<and> c \<le> hi)"
| "item_accepts WhiteSpaceEscape c = is_white_space c"

fun class_accepts :: "class_item list \<Rightarrow> code_unit \<Rightarrow> bool" where
  "class_accepts [] c = False"
| "class_accepts (i # items) c = (item_accepts i c \<or> class_accepts items c)"

text \<open>
  \<open>s.match(re)\<close> for a pattern without the \<open>g\<close> flag, read at index 0 of the result:
  the leftmost match, as long as it can be; \<open>None\<close> is the \<open>null\<close> of no match.
\<close>

fun js_match :: "regex \<Rightarrow> jsstring \<Rightarrow> jsstring option" where
  "js_match (OneOrMore cls) s =
     (case dropWhile (\<lambda>c. \<not> class_accepts cls c) s of
        [] \<Rightarrow> None
      | r # rs \<Rightarrow> Some (takeWhile (class_accepts cls) (r # rs)))"

text \<open>
  The class of line 20, \<open>[\<dots>-\<dots>]\<close> with the literal characters U+0D80 and U+0DFF (the
  bytes E0 B6 80 and E0 B7 BF of the file), and the class of line 35, the same range
  followed by \<open>\s\<close>.
\<close>

definition sinhala_class :: "class_item list" where
  "sinhala_class = [Range 0x0D80 0x0DFF]"

definition sinhala_space_class :: "class_item list" where
  "sinhala_space_class = [Range 0x0D80 0x0DFF, WhiteSpaceEscape]"

text \<open>The range of both classes, U+0D80 to U+0DFF, as a predicate on code units.\<close>

definition in_sinhala_block :: "code_unit \<Rightarrow> bool" where
  "in_sinhala_block c = (0x0D80 \<le> c \<and> c \<le> 0x0DFF)"

section \<open>The page\<close>

text \<open>
  The browser is outside the program: a page is what its locators answer. Every call of
  the automation library either throws or yields a value; \<open>textContent()\<close> may yield
  \<open>null\<close>, on which \<open>.trim()\<close> and \<open>.match()\<close> throw a \<open>TypeError\<close>.
\<close>

datatype js_error = LibraryError | TypeError

datatype selector = Text regex | Css string

datatype locator = Locator
  (all_locators: "js_error + locator list")
  (textContent: "js_error + jsstring option")
  (inputValue: "js_error + jsstring")

type_synonym page = "selector \<Rightarrow> locator"

section \<open>The output extractor\<close>

text \<open>
  A block of statements throws (\<open>Inl e\<close>), returns from the function (\<open>Inr (Some v)\<close>)
  or runs to its end (\<open>Inr None\<close>). \<open>try { b } catch (e) {}\<close> turns a throw into
  running to the end; \<open>b; rest\<close> runs the rest of the function only after a block that
  ran to its end.
\<close>

definition try_catch :: "js_error + 'a option \<Rightarrow> js_error + 'a option" where
  "try_catch b = (case b of Inl e \<Rightarrow> Inr None | Inr r \<Rightarrow> Inr r)"

definition and_then :: "js_error + 'a option \<Rightarrow> js_error + 'a \<Rightarrow> js_error + 'a" where
  "and_then b rest =
     (case b of Inl e \<Rightarrow> Inl e | Inr (Some v) \<Rightarrow> Inr v | Inr None \<Rightarrow> rest)"

text \<open>Lines 20 to 23: the body of the first \<open>try\<close>.\<close>

definition tier1 :: "page \<Rightarrow> js_error + jsstring option" where
  "tier1 page =
     (case all_locators (page (Text (OneOrMore sinhala_class))) of
        Inl e \<Rightarrow> Inl e
      | Inr elements \<Rightarrow>
          if length elements > 0 then
            (case textContent (elements ! (length elements - 1)) of
               Inl e \<Rightarrow> Inl e
             | Inr None \<Rightarrow> Inl TypeError
             | Inr (Some t) \<Rightarrow> Inr (Some (trim t)))
          else Inr None)"

text \<open>Lines 27 to 30: the body of the second \<open>try\<close>.\<close>

definition tier2 :: "page \<Rightarrow> js_error + jsstring option" where
  "tier2 page =
     (case all_locators (page (Css ''textarea'')) of
        Inl e \<Rightarrow> Inl e
      | Inr textareas \<Rightarrow>
          if length textareas > 1 then
            (case inputValue (textareas ! 1) of
               Inl e \<Rightarrow> Inl e
             | Inr v \<Rightarrow> Inr (Some (trim v)))
          else Inr None)"

text \<open>Lines 34 to 36: the body of the third \<open>try\<close>.\<close>

definition tier3 :: "page \<Rightarrow> js_error + jsstring option" where
  "tier3 page =
     (case textContent (page (Css ''body'')) of
        Inl e \<Rightarrow> Inl e
      | Inr None \<Rightarrow> Inl TypeError
      | Inr (Some bodyText) \<Rightarrow>
          (case js_match (OneOrMore sinhala_space_class) bodyText of
             None \<Rightarrow> Inr None
           | Some m \<Rightarrow> Inr (Some (trim m))))"

text \<open>Lines 18 to 40. \<open>Inl e\<close> would be a rejected promise, \<open>Inr s\<close> is the string returned.\<close>

definition getSinhalaOutput :: "page \<Rightarrow> js_error + jsstring" where
  "getSinhalaOutput page =
     and_then (try_catch (tier1 page))
       (and_then (try_catch (tier2 page))
          (and_then (try_catch (tier3 page))
             (Inr [])))"

section \<open>The translation driver and the verdict\<close>

text \<open>
  Lines 42 to 49. The site is outside the program: \<open>site input\<close> is the page as it stands
  once the input field has been cleared and filled with \<open>input\<close> and the wait is over, or
  the error that \<open>goto\<close>, \<open>clear\<close> or \<open>fill\<close> threw.
\<close>

definition translateText :: "(jsstring \<Rightarrow> js_error + page) \<Rightarrow> jsstring \<Rightarrow> js_error + jsstring" where
  "translateText site input =
     (case site input of Inl e \<Rightarrow> Inl e | Inr page \<Rightarrow> getSinhalaOutput page)"

text \<open>
  The \<open>Status:\<close> line that \<open>runTest\<close> logs: \<open>PASS\<close> (line 70), \<open>PASS (correctly fails)\<close>
  (line 66) or \<open>FAIL\<close> (either line).
\<close>

datatype status = PASS | PASS_correctly_fails | FAIL

fun passed :: "status \<Rightarrow> bool" where
  "passed PASS = True"
| "passed PASS_correctly_fails = True"
| "passed FAIL = False"

text \<open>Lines 58 and 65 to 72: \<open>===\<close> on strings compares the code units.\<close>

definition verdict :: "jsstring \<Rightarrow> jsstring \<Rightarrow> bool \<Rightarrow> status" where
  "verdict actualOutput expectedOutput isNegative =
     (let matches = (actualOutput = expectedOutput) in
      if isNegative then (if \<not> matches then PASS_correctly_fails else FAIL)
      else (if matches then PASS else FAIL))"

text \<open>
  Lines 51 to 81: the status logged and the string returned. The test id only names the
  log lines and the screenshot file; the screenshot itself is left out.
\<close>

definition runTest ::
  "(jsstring \<Rightarrow> js_error + page) \<Rightarrow> jsstring \<Rightarrow> jsstring \<Rightarrow> bool \<Rightarrow> js_error + status \<times> jsstring" where
  "runTest site input expectedOutput isNegative =
     (case translateText site input of
        Inl e \<Rightarrow> Inl e
      | Inr actualOutput \<Rightarrow> Inr (verdict actualOutput expectedOutput isNegative, actualOutput))"

section \<open>The real-time update test\<close>

text \<open>
  Lines 372 to 377, the body of the loop after the key stroke and the wait, which are
  the browser's: \<open>page\<close> is the page as it stands when the sample is taken. \<open>outputUpdates\<close> is a JavaScript number that only
  counts iterations, far below \<open>2 ^ 53\<close>, so a natural number.
\<close>

fun sample_step :: "page \<Rightarrow> nat \<times> jsstring \<Rightarrow> js_error + nat \<times> jsstring" where
  "sample_step page (outputUpdates, previousOutput) =
     (case getSinhalaOutput page of
        Inl e \<Rightarrow> Inl e
      | Inr currentOutput \<Rightarrow>
          if currentOutput \<noteq> previousOutput \<and> length currentOutput > 0
          then Inr (outputUpdates + 1, currentOutput)
          else Inr (outputUpdates, previousOutput))"

text \<open>
  Lines 368 to 378: \<open>for (let i = 0; i < testInput.length; i++)\<close>, where \<open>snap i\<close> is the
  page as it stands after character \<open>i\<close> has been typed and the wait is over.
\<close>

function typing_loop ::
  "(nat \<Rightarrow> page) \<Rightarrow> nat \<Rightarrow> nat \<Rightarrow> nat \<times> jsstring \<Rightarrow> js_error + nat \<times> jsstring" where
  "typing_loop snap len i st =
     (if i < len then
        (case sample_step (snap i) st of
           Inl e \<Rightarrow> Inl e
         | Inr st' \<Rightarrow> typing_loop snap len (i + 1) st')
      else Inr st)"
  by pat_completeness auto
termination
  by (relation "measure (\<lambda>(snap, len, i, st). len - i)") auto

text \<open>
  Lines 364 to 396 for any input and expected output: the loop from
  \<open>outputUpdates = 0\<close> and \<open>previousOutput = ''\<close>, the final sample on \<open>finalPage\<close>, and
  \<open>testPassed\<close>.
\<close>

definition realtime_test ::
  "jsstring \<Rightarrow> jsstring \<Rightarrow> (nat \<Rightarrow> page) \<Rightarrow> page \<Rightarrow> js_error + bool" where
  "realtime_test testInput expectedOutput snap finalPage =
     (case typing_loop snap (length testInput) 0 (0, []) of
        Inl e \<Rightarrow> Inl e
      | Inr (outputUpdates, previousOutput) \<Rightarrow>
          (case getSinhalaOutput finalPage of
             Inl e \<Rightarrow> Inl e
           | Inr finalOutput \<Rightarrow> Inr (outputUpdates > 0 \<and> finalOutput = expectedOutput)))"

text \<open>
  Lines 358 and 359, the test's \<open>testInput\<close> and \<open>expectedOutput\<close>:
  \<open>'supun gedhara yanavaa'\<close> and its expected Sinhala rendering.
\<close>

definition ui_testInput :: jsstring where
  "ui_testInput = [0x73, 0x75, 0x70, 0x75, 0x6E, 0x20, 0x67, 0x65, 0x64, 0x68, 0x61, 0x72, 0x61,
                   0x20, 0x79, 0x61, 0x6E, 0x61, 0x76, 0x61, 0x61]"

definition ui_expectedOutput :: jsstring where
  "ui_expectedOutput = [0x0DC3, 0x0DD4, 0x0DB4, 0x0DD4, 0x0DB1, 0x0DCA, 0x20, 0x0D9C, 0x0DD9,
                        0x0DAF, 0x0DBB, 0x20, 0x0DBA, 0x0DB1, 0x0DC0, 0x0DCF]"

definition Pos_UI_0001 :: "(nat \<Rightarrow> page) \<Rightarrow> page \<Rightarrow> js_error + bool" where
  "Pos_UI_0001 = realtime_test ui_testInput ui_expectedOutput"

section \<open>The counting rule on a list of samples\<close>

text \<open>
  The rule of the loop read on the samples alone: a sample that differs from
  \<open>previousOutput\<close> and is not empty is counted and becomes \<open>previousOutput\<close>; any other
  sample leaves both as they are.
\<close>

fun count_updates :: "jsstring list \<Rightarrow> nat \<times> jsstring \<Rightarrow> nat \<times> jsstring" where
  "count_updates [] st = st"
| "count_updates (s # samples) (updateCount, previousOutput) =
     (if s \<noteq> previousOutput \<and> s \<noteq> []
      then count_updates samples (updateCount + 1, s)
      else count_updates samples (updateCount, previousOutput))"

section \<open>Pages to run the program on\<close>

text \<open>A locator that matches no element, and one whose every call throws.\<close>

definition no_match :: locator where
  "no_match = Locator (Inr []) (Inl LibraryError) (Inl LibraryError)"

definition broken :: locator where
  "broken = Locator (Inl LibraryError) (Inl LibraryError) (Inl LibraryError)"

text \<open>An element, as \<open>all()\<close> lists it, with its text content and its value.\<close>

definition element :: "jsstring \<Rightarrow> jsstring \<Rightarrow> locator" where
  "element t v = Locator (Inr []) (Inr (Some t)) (Inr v)"

text \<open>A locator that matches the elements \<open>es\<close>.\<close>

definition matching :: "locator list \<Rightarrow> locator" where
  "matching es = Locator (Inr es) (Inl LibraryError) (Inl LibraryError)"

definition empty_page :: page where
  "empty_page = (\<lambda>sel. no_match)"

definition broken_page :: page where
  "broken_page = (\<lambda>sel. broken)"

text \<open>A page with an input and an output text area, the output area holding \<open>v\<close>.\<close>

definition showing :: "jsstring \<Rightarrow> page" where
  "showing v = empty_page (Css ''textarea'' := matching [element [] [], element [] v])"

text \<open>The snapshots \<open>ps\<close>, one for each typed character.\<close>

definition snapshots :: "page list \<Rightarrow> nat \<Rightarrow> page" where
  "snapshots ps i = (if i < length ps then ps ! i else empty_page)"

text \<open>
  Page chrome in Sinhala before the output region, a filled second text area and a body
  text; every other locator throws.
\<close>

definition chrome_page :: page where
  "chrome_page = broken_page
     (Text (OneOrMore sinhala_class) :=
        matching [element [0x0D9A] [], element [0x20, 0x0DB8, 0x0DB8, 0x0A] []],
      Css ''textarea'' := matching [element [] [], element [] [0x61]],
      Css ''body'' := element [0x0D9A] [])"

text \<open>No element of Sinhala text, two text areas and a body text.\<close>

definition two_areas_page :: page where
  "two_areas_page = empty_page
     (Css ''textarea'' := matching [element [] [0x61], element [] [0x20, 0x62, 0x20]],
      Css ''body'' := element [0x0D9A] [])"

text \<open>Three text areas; every other locator throws.\<close>

definition three_areas_page :: page where
  "three_areas_page = broken_page
     (Css ''textarea'' :=
        matching [element [] [0x61], element [] [0x09, 0x0DB8, 0x20, 0x0DB8, 0x20],
                  element [] [0x63]])"

text \<open>A site that shows the same page whatever the input.\<close>

definition always :: "page \<Rightarrow> jsstring \<Rightarrow> js_error + page" where
  "always page input = Inr page"

text \<open>
  Pages whose first two tiers throw and whose body text is a space directly before a
  Sinhala letter, and a space, a Latin letter and a Sinhala letter.
\<close>

definition space_sinhala_page :: page where
  "space_sinhala_page = broken_page (Css ''body'' := element [0x20, 0x0D9A] [])"

definition space_latin_sinhala_page :: page where
  "space_latin_sinhala_page = broken_page (Css ''body'' := element [0x20, 0x61, 0x0D9A] [])"

text \<open>No Sinhala anywhere: one text area and a body text of Latin letters and a space.\<close>

definition latin_page :: page where
  "latin_page = empty_page
     (Css ''textarea'' := matching [element [] [0x61]],
      Css ''body'' := element [0x61, 0x20, 0x62] [])"

section \<open>Totality of the extractor\<close>

lemma try_catch_cases: "try_catch b = Inr None \<or> (\<exists>v. try_catch b = Inr (Some v))"
  by (cases b) (auto simp: try_catch_def)

lemma try_catch_Inl [simp]: "try_catch (Inl e) = Inr None"
  by (simp add: try_catch_def)

lemma try_catch_Inr [simp]: "try_catch (Inr r) = Inr r"
  by (simp add: try_catch_def)

lemma and_then_None [simp]: "and_then (Inr None) rest = rest"
  by (simp add: and_then_def)

lemma and_then_Some [simp]: "and_then (Inr (Some v)) rest = Inr v"
  by (simp add: and_then_def)

lemma getSinhalaOutput_total: "\<exists>s. getSinhalaOutput page = Inr s"
proof -
  consider "try_catch (tier1 page) = Inr None" | v where "try_catch (tier1 page) = Inr (Some v)"
    using try_catch_cases by blast
  then show ?thesis
  proof cases
    case 2
    then show ?thesis by (simp add: getSinhalaOutput_def)
  next
    case 1
    consider "try_catch (tier2 page) = Inr None" | v where "try_catch (tier2 page) = Inr (Some v)"
      using try_catch_cases by blast
    then show ?thesis
    proof cases
      case 2
      with 1 show ?thesis by (simp add: getSinhalaOutput_def)
    next
      case 1
      note t2 = this
      consider "try_catch (tier3 page) = Inr None" | v where "try_catch (tier3 page) = Inr (Some v)"
        using try_catch_cases by blast
      then show ?thesis
        using \<open>try_catch (tier1 page) = Inr None\<close> t2
        by cases (simp_all add: getSinhalaOutput_def)
    qed
  qed
qed

section \<open>What each tier reads\<close>

text \<open>Each tier reads the locator of its own selector and nothing else of the page.\<close>

lemma tier1_upd_css [simp]: "tier1 (page(Css s := l)) = tier1 page"
  by (simp add: tier1_def)

lemma tier2_upd_text [simp]: "tier2 (page(Text r := l)) = tier2 page"
  by (simp add: tier2_def)

lemma tier2_upd_body [simp]: "tier2 (page(Css ''body'' := l)) = tier2 page"
  by (simp add: tier2_def)

lemma tier3_upd_text [simp]: "tier3 (page(Text r := l)) = tier3 page"
  by (simp add: tier3_def)

lemma tier3_upd_textarea [simp]: "tier3 (page(Css ''textarea'' := l)) = tier3 page"
  by (simp add: tier3_def)

lemma tier1_no_match: "tier1 (page(Text (OneOrMore sinhala_class) := no_match)) = Inr None"
  by (simp add: tier1_def no_match_def)

lemma tier2_no_match: "tier2 (page(Css ''textarea'' := no_match)) = Inr None"
  by (simp add: tier2_def no_match_def)

lemma tier3_empty_body: "tier3 (page(Css ''body'' := element [] [])) = Inr None"
  by (simp add: tier3_def element_def)

lemma trim_white: "\<forall>c\<in>set m. is_white_space c \<Longrightarrow> trim m = []"
proof -
  assume "\<forall>c\<in>set m. is_white_space c"
  then have "dropWhile is_white_space m = []" by simp
  then show ?thesis by (simp only: trim_def rev.simps dropWhile.simps)
qed

lemma space_class_iff: "class_accepts sinhala_space_class c \<longleftrightarrow> in_sinhala_block c \<or> is_white_space c"
  by (simp add: sinhala_space_class_def in_sinhala_block_def)

lemma sinhala_class_iff: "class_accepts sinhala_class c \<longleftrightarrow> in_sinhala_block c"
  by (simp add: sinhala_class_def in_sinhala_block_def)

lemma js_match_accepted:
  "js_match (OneOrMore cls) s = Some m \<Longrightarrow> m \<noteq> [] \<and> (\<forall>c\<in>set m. class_accepts cls c) \<and> set m \<subseteq> set s"
proof -
  assume a: "js_match (OneOrMore cls) s = Some m"
  then obtain r rs where d: "dropWhile (\<lambda>c. \<not> class_accepts cls c) s = r # rs"
    and m: "m = takeWhile (class_accepts cls) (r # rs)"
    by (auto split: list.splits)
  have "class_accepts cls r"
    using hd_dropWhile [of "\<lambda>c. \<not> class_accepts cls c" s] d by simp
  then have "m \<noteq> []" using m by simp
  moreover have "\<forall>c\<in>set m. class_accepts cls c"
    using m by (auto dest: set_takeWhileD)
  moreover have "set m \<subseteq> set s"
  proof
    fix x assume "x \<in> set m"
    then have "x \<in> set (r # rs)" unfolding m by (rule set_takeWhileD [THEN conjunct1])
    then have "x \<in> set (dropWhile (\<lambda>c. \<not> class_accepts cls c) s)" using d by simp
    then show "x \<in> set s" by (rule set_mp [OF set_dropWhileD [THEN subsetI], rotated]) 
  qed
  ultimately show ?thesis by blast
qed

lemma tier3_no_sinhala:
  assumes "textContent (page (Css ''body'')) = Inr (Some b)" "\<forall>c\<in>set b. \<not> in_sinhala_block c"
  shows "tier3 page = Inr None \<or> tier3 page = Inr (Some [])"
proof (cases "js_match (OneOrMore sinhala_space_class) b")
  case None
  then show ?thesis using assms by (simp add: tier3_def)
next
  case (Some m)
  from js_match_accepted [OF Some] have "\<forall>c\<in>set m. is_white_space c"
    using assms(2) by (auto simp: space_class_iff)
  then have "trim m = []" by (rule trim_white)
  then show ?thesis using assms Some by (simp add: tier3_def)
qed

section \<open>The extractor never fails\<close>

text \<open>
  C1. For every page \<open>getSinhalaOutput\<close> returns a string and never an error. A tier that
  throws counts as a tier that found nothing: the result is the one of the page on which
  this tier's locator matches nothing (for the third tier, on which the body has no text).
  When the three tiers find nothing the result is the empty string; so it is on a page
  without any element of Sinhala text, with fewer than two text areas and with no Sinhala
  code unit in the text of its body.
\<close>

theorem extract_total:
  "(\<exists>s. getSinhalaOutput page = Inr s) \<and>
   (\<forall>e. tier1 page = Inl e \<longrightarrow>
      getSinhalaOutput page = getSinhalaOutput (page(Text (OneOrMore sinhala_class) := no_match))) \<and>
   (\<forall>e. tier2 page = Inl e \<longrightarrow>
      getSinhalaOutput page = getSinhalaOutput (page(Css ''textarea'' := no_match))) \<and>
   (\<forall>e. tier3 page = Inl e \<longrightarrow>
      getSinhalaOutput page = getSinhalaOutput (page(Css ''body'' := element [] []))) \<and>
   (try_catch (tier1 page) = Inr None \<and> try_catch (tier2 page) = Inr None \<and>
    try_catch (tier3 page) = Inr None \<longrightarrow> getSinhalaOutput page = Inr []) \<and>
   (\<forall>ts b. all_locators (page (Text (OneOrMore sinhala_class))) = Inr [] \<and>
      all_locators (page (Css ''textarea'')) = Inr ts \<and> length ts < 2 \<and>
      textContent (page (Css ''body'')) = Inr (Some b) \<and> (\<forall>c\<in>set b. \<not> in_sinhala_block c) \<longrightarrow>
      getSinhalaOutput page = Inr [])"
proof (intro conjI allI impI)
  show "\<exists>s. getSinhalaOutput page = Inr s" by (rule getSinhalaOutput_total)
next
  fix e assume "tier1 page = Inl e"
  then show "getSinhalaOutput page = getSinhalaOutput (page(Text (OneOrMore sinhala_class) := no_match))"
    by (simp add: getSinhalaOutput_def tier1_no_match)
next
  fix e assume "tier2 page = Inl e"
  then show "getSinhalaOutput page = getSinhalaOutput (page(Css ''textarea'' := no_match))"
    by (simp add: getSinhalaOutput_def tier2_no_match)
next
  fix e assume "tier3 page = Inl e"
  then show "getSinhalaOutput page = getSinhalaOutput (page(Css ''body'' := element [] []))"
    by (simp add: getSinhalaOutput_def tier3_empty_body)
next
  assume "try_catch (tier1 page) = Inr None \<and> try_catch (tier2 page) = Inr None \<and>
    try_catch (tier3 page) = Inr None"
  then show "getSinhalaOutput page = Inr []" by (simp add: getSinhalaOutput_def)
next
  fix ts b
  assume a: "all_locators (page (Text (OneOrMore sinhala_class))) = Inr [] \<and>
      all_locators (page (Css ''textarea'')) = Inr ts \<and> length ts < 2 \<and>
      textContent (page (Css ''body'')) = Inr (Some b) \<and> (\<forall>c\<in>set b. \<not> in_sinhala_block c)"
  then have t1: "tier1 page = Inr None" by (simp add: tier1_def)
  from a have t2: "tier2 page = Inr None" by (simp add: tier2_def)
  from a have "tier3 page = Inr None \<or> tier3 page = Inr (Some [])"
    using tier3_no_sinhala by blast
  then show "getSinhalaOutput page = Inr []"
    using t1 t2 by (auto simp: getSinhalaOutput_def)
qed

theorem extract_total_witness:
  "tier1 broken_page = Inl LibraryError \<and> tier2 broken_page = Inl LibraryError \<and>
   tier3 broken_page = Inl LibraryError \<and> getSinhalaOutput broken_page = Inr [] \<and>
   getSinhalaOutput (broken_page(Text (OneOrMore sinhala_class) := no_match)) = Inr [] \<and>
   getSinhalaOutput (broken_page(Css ''textarea'' := no_match)) = Inr [] \<and>
   getSinhalaOutput (broken_page(Css ''body'' := element [] [])) = Inr [] \<and>
   tier3 latin_page = Inr (Some []) \<and> getSinhalaOutput latin_page = Inr []"
proof -
  note total = extract_total [of broken_page]
  have t: "tier1 broken_page = Inl LibraryError" "tier2 broken_page = Inl LibraryError"
    "tier3 broken_page = Inl LibraryError"
    by (simp_all add: tier1_def tier2_def tier3_def broken_page_def broken_def)
  then have h: "try_catch (tier1 broken_page) = Inr None \<and> try_catch (tier2 broken_page) = Inr None \<and>
    try_catch (tier3 broken_page) = Inr None" by simp
  from total h have g: "getSinhalaOutput broken_page = Inr []" by blast
  from total t(1) have "getSinhalaOutput broken_page =
      getSinhalaOutput (broken_page(Text (OneOrMore sinhala_class) := no_match))" by blast
  with g have g1: "getSinhalaOutput (broken_page(Text (OneOrMore sinhala_class) := no_match)) = Inr []"
    by simp
  from total t(2) have "getSinhalaOutput broken_page =
      getSinhalaOutput (broken_page(Css ''textarea'' := no_match))" by blast
  with g have g2: "getSinhalaOutput (broken_page(Css ''textarea'' := no_match)) = Inr []"
    by simp
  from total t(3) have "getSinhalaOutput broken_page =
      getSinhalaOutput (broken_page(Css ''body'' := element [] []))" by blast
  with g have g3: "getSinhalaOutput (broken_page(Css ''body'' := element [] [])) = Inr []"
    by simp
  have d: "all_locators (latin_page (Text (OneOrMore sinhala_class))) = Inr [] \<and>
      all_locators (latin_page (Css ''textarea'')) = Inr [element [] [0x61]] \<and>
      length [element [] [0x61]] < 2 \<and>
      textContent (latin_page (Css ''body'')) = Inr (Some [0x61, 0x20, 0x62]) \<and>
      (\<forall>c\<in>set [0x61, 0x20, 0x62]. \<not> in_sinhala_block c)"
    by (simp add: latin_page_def empty_page_def no_match_def matching_def element_def
        in_sinhala_block_def)
  from extract_total [of latin_page] d have g4: "getSinhalaOutput latin_page = Inr []" by blast
  have t3: "tier3 latin_page = Inr (Some [])"
    by (simp add: tier3_def latin_page_def element_def sinhala_space_class_def trim_def
        is_white_space_def)
  from t g g1 g2 g3 g4 t3 show ?thesis by simp
qed

section \<open>The order of the tiers\<close>

lemma tier1_last:
  assumes "all_locators (page (Text (OneOrMore sinhala_class))) = Inr elements"
    "elements \<noteq> []" "textContent (last elements) = Inr (Some t)"
  shows "tier1 page = Inr (Some (trim t))"
  using assms by (simp add: tier1_def last_conv_nth)

text \<open>
  C2. On every page on which the locator of the Sinhala text pattern lists at least one
  element, \<open>getSinhalaOutput\<close> returns the trimmed text content of the last element
  listed. What the locators of the text areas and of the body answer is never read: with
  any other two locators in their place the result is the same.
\<close>

theorem tier1_precedence:
  assumes "all_locators (page (Text (OneOrMore sinhala_class))) = Inr elements"
    and "elements \<noteq> []"
    and "textContent (last elements) = Inr (Some t)"
  shows "getSinhalaOutput page = Inr (trim t) \<and>
         (\<forall>l2 l3. getSinhalaOutput (page(Css ''textarea'' := l2, Css ''body'' := l3)) = Inr (trim t))"
proof -
  have "tier1 page = Inr (Some (trim t))" using assms by (rule tier1_last)
  then show ?thesis by (simp add: getSinhalaOutput_def)
qed

theorem tier1_precedence_witness:
  "getSinhalaOutput chrome_page = Inr [0x0DB8, 0x0DB8] \<and>
   tier2 chrome_page = Inr (Some [0x61]) \<and> tier3 chrome_page = Inr (Some [0x0D9A]) \<and>
   getSinhalaOutput (chrome_page(Css ''textarea'' := broken, Css ''body'' := broken)) = Inr [0x0DB8, 0x0DB8]"
proof -
  let ?es = "[element [0x0D9A] [], element [0x20, 0x0DB8, 0x0DB8, 0x0A] []]"
  have a: "all_locators (chrome_page (Text (OneOrMore sinhala_class))) = Inr ?es"
    by (simp add: chrome_page_def matching_def)
  have b: "?es \<noteq> []" by simp
  have c: "textContent (last ?es) = Inr (Some [0x20, 0x0DB8, 0x0DB8, 0x0A])"
    by (simp add: element_def)
  have t: "trim [0x20, 0x0DB8, 0x0DB8, 0x0A] = [0x0DB8, 0x0DB8]"
    by (simp add: trim_def is_white_space_def)
  have t2: "tier2 chrome_page = Inr (Some [0x61])"
    by (simp add: tier2_def chrome_page_def matching_def element_def trim_def is_white_space_def)
  have t3: "tier3 chrome_page = Inr (Some [0x0D9A])"
    by (simp add: tier3_def chrome_page_def element_def sinhala_space_class_def trim_def is_white_space_def)
  from tier1_precedence [of chrome_page ?es "[0x20, 0x0DB8, 0x0DB8, 0x0A]", OF a b c] t t2 t3
  show ?thesis by simp
qed

text \<open>
  C3. A tier is run only when the tier before it found nothing. What the first tier
  finds is returned whatever the locators of the later tiers answer; when the first tier
  finds nothing, what the second tier finds is returned whatever the locator of the body
  answers; the third tier decides only when the first two found nothing.
\<close>

theorem fallback_order:
  "(\<forall>s l2 l3. try_catch (tier1 page) = Inr (Some s) \<longrightarrow>
      getSinhalaOutput (page(Css ''textarea'' := l2, Css ''body'' := l3)) = Inr s) \<and>
   (\<forall>s l3. try_catch (tier1 page) = Inr None \<and> try_catch (tier2 page) = Inr (Some s) \<longrightarrow>
      getSinhalaOutput (page(Css ''body'' := l3)) = Inr s) \<and>
   (\<forall>s. try_catch (tier1 page) = Inr None \<and> try_catch (tier2 page) = Inr None \<and>
      try_catch (tier3 page) = Inr (Some s) \<longrightarrow> getSinhalaOutput page = Inr s)"
  by (simp add: getSinhalaOutput_def)

theorem fallback_order_witness:
  "try_catch (tier1 two_areas_page) = Inr None \<and> try_catch (tier2 two_areas_page) = Inr (Some [0x62]) \<and>
   try_catch (tier3 two_areas_page) = Inr (Some [0x0D9A]) \<and>
   getSinhalaOutput (two_areas_page(Css ''body'' := broken)) = Inr [0x62] \<and>
   getSinhalaOutput two_areas_page = Inr [0x62] \<and>
   try_catch (tier1 chrome_page) = Inr (Some [0x0DB8, 0x0DB8]) \<and>
   getSinhalaOutput (chrome_page(Css ''textarea'' := broken, Css ''body'' := broken)) =
     Inr [0x0DB8, 0x0DB8] \<and>
   try_catch (tier1 space_sinhala_page) = Inr None \<and> try_catch (tier2 space_sinhala_page) = Inr None \<and>
   try_catch (tier3 space_sinhala_page) = Inr (Some [0x0D9A]) \<and>
   getSinhalaOutput space_sinhala_page = Inr [0x0D9A]"
proof -
  have t1: "try_catch (tier1 two_areas_page) = Inr None"
    by (simp add: tier1_def two_areas_page_def empty_page_def no_match_def)
  have t2: "try_catch (tier2 two_areas_page) = Inr (Some [0x62])"
    by (simp add: tier2_def two_areas_page_def matching_def element_def trim_def is_white_space_def)
  have t3: "try_catch (tier3 two_areas_page) = Inr (Some [0x0D9A])"
    by (simp add: tier3_def two_areas_page_def element_def sinhala_space_class_def trim_def is_white_space_def)
  from fallback_order [of two_areas_page] t1 t2
  have a: "getSinhalaOutput (two_areas_page(Css ''body'' := broken)) = Inr [0x62]" by blast
  from fallback_order [of two_areas_page] t1 t2
  have "getSinhalaOutput (two_areas_page(Css ''body'' := two_areas_page (Css ''body''))) = Inr [0x62]"
    by blast
  then have b: "getSinhalaOutput two_areas_page = Inr [0x62]" by simp
  have c1: "try_catch (tier1 chrome_page) = Inr (Some [0x0DB8, 0x0DB8])"
    by (simp add: tier1_def chrome_page_def matching_def element_def trim_def is_white_space_def)
  from fallback_order [of chrome_page] c1
  have c: "getSinhalaOutput (chrome_page(Css ''textarea'' := broken, Css ''body'' := broken)) =
     Inr [0x0DB8, 0x0DB8]" by blast
  have s1: "try_catch (tier1 space_sinhala_page) = Inr None"
    by (simp add: tier1_def space_sinhala_page_def broken_page_def broken_def)
  have s2: "try_catch (tier2 space_sinhala_page) = Inr None"
    by (simp add: tier2_def space_sinhala_page_def broken_page_def broken_def)
  have s3: "try_catch (tier3 space_sinhala_page) = Inr (Some [0x0D9A])"
    by (simp add: tier3_def space_sinhala_page_def element_def sinhala_space_class_def trim_def
        is_white_space_def)
  from fallback_order [of space_sinhala_page] s1 s2 s3
  have d: "getSinhalaOutput space_sinhala_page = Inr [0x0D9A]" by blast
  from t1 t2 t3 a b c1 c s1 s2 s3 d show ?thesis by simp
qed

text \<open>
  C4. When the first tier finds nothing and the page has at least two text areas,
  \<open>getSinhalaOutput\<close> returns the value of the text area at index 1, trimmed.
\<close>

theorem tier2_second_control:
  assumes "try_catch (tier1 page) = Inr None"
    and "all_locators (page (Css ''textarea'')) = Inr textareas"
    and "2 \<le> length textareas"
    and "inputValue (textareas ! 1) = Inr v"
  shows "getSinhalaOutput page = Inr (trim v)"
proof -
  have "tier2 page = Inr (Some (trim v))" using assms(2-4) by (simp add: tier2_def)
  with assms(1) show ?thesis by (simp add: getSinhalaOutput_def)
qed

theorem tier2_second_control_witness:
  "try_catch (tier1 three_areas_page) = Inr None \<and>
   getSinhalaOutput three_areas_page = Inr [0x0DB8, 0x20, 0x0DB8]"
proof -
  let ?ts = "[element [] [0x61], element [] [0x09, 0x0DB8, 0x20, 0x0DB8, 0x20], element [] [0x63]]"
  have t1: "try_catch (tier1 three_areas_page) = Inr None"
    by (simp add: tier1_def three_areas_page_def broken_page_def broken_def)
  have a: "all_locators (three_areas_page (Css ''textarea'')) = Inr ?ts"
    by (simp add: three_areas_page_def matching_def)
  have b: "2 \<le> length ?ts" by simp
  have c: "inputValue (?ts ! 1) = Inr [0x09, 0x0DB8, 0x20, 0x0DB8, 0x20]"
    by (simp add: element_def)
  have t: "trim [0x09, 0x0DB8, 0x20, 0x0DB8, 0x20] = [0x0DB8, 0x20, 0x0DB8]"
    by (simp add: trim_def is_white_space_def)
  from tier2_second_control [of three_areas_page ?ts "[0x09, 0x0DB8, 0x20, 0x0DB8, 0x20]", OF t1 a b c] t t1
  show ?thesis by simp
qed

section \<open>The verdict\<close>

lemma runTest_total:
  "site input = Inr page \<Longrightarrow>
   \<exists>actualOutput. getSinhalaOutput page = Inr actualOutput \<and>
     runTest site input expectedOutput isNegative =
       Inr (verdict actualOutput expectedOutput isNegative, actualOutput)"
  using getSinhalaOutput_total [of page]
  by (auto simp: runTest_def translateText_def)

text \<open>
  C5. For a positive test case and every actual output, the status logged is a pass if
  and only if the actual output is the expected output, code unit by code unit; so it is
  for the status that \<open>runTest\<close> logs. Nothing is normalised: one more code unit at
  either end, a space or any other, is a failure.
\<close>

theorem positive_verdict:
  "(passed (verdict actualOutput expectedOutput False) \<longleftrightarrow> actualOutput = expectedOutput) \<and>
   (\<forall>site input st. runTest site input expectedOutput False = Inr (st, actualOutput) \<longrightarrow>
      (passed st \<longleftrightarrow> actualOutput = expectedOutput)) \<and>
   (\<forall>c. \<not> passed (verdict (expectedOutput @ [c]) expectedOutput False) \<and>
        \<not> passed (verdict (c # expectedOutput) expectedOutput False))"
  by (auto simp: verdict_def runTest_def split: sum.splits)

theorem positive_verdict_witness:
  "runTest (always (showing [0x41, 0x62])) [0x61] [0x41, 0x62] False = Inr (PASS, [0x41, 0x62]) \<and>
   passed (verdict [0x41, 0x62] [0x41, 0x62] False) \<and>
   \<not> passed (verdict [0x61, 0x62] [0x41, 0x62] False) \<and>
   \<not> passed (verdict [0x41, 0x62, 0x20] [0x41, 0x62] False)"
proof -
  have g: "getSinhalaOutput (showing [0x41, 0x62]) = Inr [0x41, 0x62]"
    by (simp add: getSinhalaOutput_def tier1_def tier2_def showing_def empty_page_def
        no_match_def matching_def element_def trim_def is_white_space_def)
  have r: "runTest (always (showing [0x41, 0x62])) [0x61] [0x41, 0x62] False =
      Inr (verdict [0x41, 0x62] [0x41, 0x62] False, [0x41, 0x62])"
    by (simp add: runTest_def translateText_def always_def g)
  from positive_verdict [of "[0x41, 0x62]" "[0x41, 0x62]"] r
  have p: "passed (verdict [0x41, 0x62] [0x41, 0x62] False)" by simp
  from positive_verdict [of "[0x61, 0x62]" "[0x41, 0x62]"]
  have q: "\<not> passed (verdict [0x61, 0x62] [0x41, 0x62] False)" by simp
  from positive_verdict [of "[0x41, 0x62]" "[0x41, 0x62]"]
  have q': "\<not> passed (verdict ([0x41, 0x62] @ [0x20]) [0x41, 0x62] False)" by blast
  have "verdict [0x41, 0x62] [0x41, 0x62] False = PASS" by (simp add: verdict_def)
  with r p q q' show ?thesis by simp
qed

text \<open>
  C6. For a negative test case and every actual output, the status logged is a pass if
  and only if the actual output differs from the expected output; an empty actual output
  passes unless the expected output is empty too.
\<close>

theorem negative_verdict:
  "(passed (verdict actualOutput expectedOutput True) \<longleftrightarrow> actualOutput \<noteq> expectedOutput) \<and>
   (\<forall>site input st. runTest site input expectedOutput True = Inr (st, actualOutput) \<longrightarrow>
      (passed st \<longleftrightarrow> actualOutput \<noteq> expectedOutput)) \<and>
   (passed (verdict [] expectedOutput True) \<longleftrightarrow> expectedOutput \<noteq> [])"
  by (auto simp: verdict_def runTest_def split: sum.splits)

theorem negative_verdict_witness:
  "runTest (always broken_page) [] [0x4E, 0x6F] True = Inr (PASS_correctly_fails, []) \<and>
   passed (verdict [] [0x4E, 0x6F] True) \<and> \<not> passed (verdict [] [] True)"
proof -
  have g: "getSinhalaOutput broken_page = Inr []"
    by (simp add: getSinhalaOutput_def tier1_def tier2_def tier3_def broken_page_def broken_def)
  have r: "runTest (always broken_page) [] [0x4E, 0x6F] True =
      Inr (verdict [] [0x4E, 0x6F] True, [])"
    by (simp add: runTest_def translateText_def always_def g)
  from negative_verdict [of "[]" "[0x4E, 0x6F]"]
  have p: "passed (verdict [] [0x4E, 0x6F] True)" by simp
  from negative_verdict [of "[]" "[]"]
  have q: "\<not> passed (verdict [] [] True)" by simp
  have "verdict [] [0x4E, 0x6F] True = PASS_correctly_fails" by (simp add: verdict_def)
  with r p q show ?thesis by simp
qed

section \<open>The counting loop\<close>

declare typing_loop.simps [simp del]

lemma sample_step_count: "getSinhalaOutput p = Inr c \<Longrightarrow> sample_step p st = Inr (count_updates [c] st)"
  by (cases st) simp

lemma count_updates_append:
  "count_updates (ys @ zs) st = count_updates zs (count_updates ys st)"
  by (induction ys st rule: count_updates.induct) simp_all

lemma typing_loop_refines:
  assumes "\<forall>j<length xs. getSinhalaOutput (snap j) = Inr (xs ! j)"
  shows "i \<le> length xs \<Longrightarrow> typing_loop snap (length xs) i st = Inr (count_updates (drop i xs) st)"
proof (induction "length xs - i" arbitrary: i st)
  case 0
  then have "i = length xs" by simp
  then show ?case by (simp add: typing_loop.simps)
next
  case (Suc d)
  then have lt: "i < length xs" by simp
  with assms have g: "getSinhalaOutput (snap i) = Inr (xs ! i)" by simp
  have d: "drop i xs = xs ! i # drop (Suc i) xs" using lt by (simp add: Cons_nth_drop_Suc)
  have "typing_loop snap (length xs) i st =
        typing_loop snap (length xs) (i + 1) (count_updates [xs ! i] st)"
    using lt by (subst typing_loop.simps) (simp add: sample_step_count [OF g])
  also have "\<dots> = Inr (count_updates (drop (Suc i) xs) (count_updates [xs ! i] st))"
    using Suc.hyps(1) [of "Suc i"] Suc.hyps(2) lt by simp
  also have "\<dots> = Inr (count_updates (drop i xs) st)"
    using count_updates_append [of "[xs ! i]" "drop (Suc i) xs" st] d by simp
  finally show ?case .
qed

lemma typing_loop_total: "\<exists>st'. typing_loop snap len 0 st = Inr st'"
proof -
  let ?xs = "map (\<lambda>j. projr (getSinhalaOutput (snap j))) [0..<len]"
  have "\<forall>j<length ?xs. getSinhalaOutput (snap j) = Inr (?xs ! j)"
    using getSinhalaOutput_total by (auto simp: ) (metis sum.sel(2))
  from typing_loop_refines [OF this, of 0 st] show ?thesis by auto
qed

lemma count_updates_closed:
  "count_updates ys (n, prev) =
     (n + (length (remdups_adj (prev # filter (\<lambda>s. s \<noteq> []) ys)) - 1),
      last (prev # filter (\<lambda>s. s \<noteq> []) ys))"
proof (induction ys arbitrary: n prev)
  case Nil
  then show ?case by simp
next
  case (Cons c ys)
  have ge: "Suc 0 \<le> length (remdups_adj (c # filter (\<lambda>s. s \<noteq> []) ys))"
    by (rule remdups_adj_length_ge1) simp
  show ?case using Cons [of n prev] Cons [of "n + 1" c] ge by auto
qed

lemma count_updates_empty: "\<forall>s\<in>set ys. s = [] \<Longrightarrow> count_updates ys (0, []) = (0, [])"
proof -
  assume "\<forall>s\<in>set ys. s = []"
  then have "filter (\<lambda>s. s \<noteq> []) ys = []" by (simp add: filter_empty_conv)
  then show ?thesis by (simp add: count_updates_closed)
qed

lemma count_updates_same: "c \<noteq> [] \<Longrightarrow> \<forall>s\<in>set ys. s = c \<Longrightarrow> count_updates ys (n, c) = (n, c)"
  by (induction ys) simp_all

lemma count_updates_constant:
  "c \<noteq> [] \<Longrightarrow> ys \<noteq> [] \<Longrightarrow> \<forall>s\<in>set ys. s = c \<Longrightarrow> count_updates ys (0, []) = (1, c)"
  by (cases ys) (simp_all add: count_updates_same)

lemma showing_output: "getSinhalaOutput (showing v) = Inr (trim v)"
  by (simp add: getSinhalaOutput_def tier1_def tier2_def showing_def empty_page_def
      no_match_def matching_def element_def)

lemma empty_page_output: "getSinhalaOutput empty_page = Inr []"
  by (simp add: getSinhalaOutput_def tier1_def tier2_def tier3_def empty_page_def no_match_def)

lemma trim_a_ish: "trim [0x61, 0x2D, 0x69, 0x73, 0x68] = [0x61, 0x2D, 0x69, 0x73, 0x68]"
  by (simp add: trim_def is_white_space_def)

lemma trim_ab_ish: "trim [0x61, 0x62, 0x2D, 0x69, 0x73, 0x68] = [0x61, 0x62, 0x2D, 0x69, 0x73, 0x68]"
  by (simp add: trim_def is_white_space_def)

lemma trim_x: "trim [0x78] = [0x78]"
  by (simp add: trim_def is_white_space_def)

lemma trim_full: "trim [0x66, 0x75, 0x6C, 0x6C, 0x2D, 0x74, 0x72, 0x61, 0x6E, 0x73, 0x6C, 0x61, 0x74, 0x69, 0x6F, 0x6E]
   = [0x66, 0x75, 0x6C, 0x6C, 0x2D, 0x74, 0x72, 0x61, 0x6E, 0x73, 0x6C, 0x61, 0x74, 0x69, 0x6F, 0x6E]"
  by (simp add: trim_def is_white_space_def)

text \<open>
  C7, amended. Let the samples taken after each typed character be \<open>xs\<close>, one for each
  character of the input. The loop ends with the count and the \<open>previousOutput\<close> of
  the counting rule run from \<open>(0, '')\<close>. At every character the count goes up by one
  and \<open>previousOutput\<close> becomes the sample exactly when the sample differs from
  \<open>previousOutput\<close> and is not empty; otherwise both stay. So the count is the number of
  changes along the non-empty samples, starting from the empty string. Samples that are
  all empty give 0; samples that are all the same non-empty string give 1, since the first
  one differs from the initial \<open>previousOutput = ''\<close>.
\<close>

theorem update_counting_rule:
  assumes "length xs = length input"
    and "\<forall>i<length input. getSinhalaOutput (snap i) = Inr (xs ! i)"
  shows "typing_loop snap (length input) 0 (0, []) = Inr (count_updates xs (0, [])) \<and>
    (\<forall>k<length input. \<forall>n prev. typing_loop snap k 0 (0, []) = Inr (n, prev) \<longrightarrow>
       typing_loop snap (Suc k) 0 (0, []) =
         Inr (if xs ! k \<noteq> prev \<and> xs ! k \<noteq> [] then (n + 1, xs ! k) else (n, prev))) \<and>
    typing_loop snap (length input) 0 (0, []) =
      Inr (length (remdups_adj ([] # filter (\<lambda>s. s \<noteq> []) xs)) - 1,
           last ([] # filter (\<lambda>s. s \<noteq> []) xs)) \<and>
    ((\<forall>i<length input. xs ! i = []) \<longrightarrow> typing_loop snap (length input) 0 (0, []) = Inr (0, [])) \<and>
    (\<forall>c. c \<noteq> [] \<and> input \<noteq> [] \<and> (\<forall>i<length input. xs ! i = c) \<longrightarrow>
       typing_loop snap (length input) 0 (0, []) = Inr (1, c))"
proof -
  have all: "\<forall>j<length xs. getSinhalaOutput (snap j) = Inr (xs ! j)" using assms by simp
  have run: "typing_loop snap (length input) 0 (0, []) = Inr (count_updates xs (0, []))"
    using typing_loop_refines [OF all, of 0 "(0, [])"] assms(1) by simp
  have pre: "typing_loop snap k 0 (0, []) = Inr (count_updates (take k xs) (0, []))"
    if "k \<le> length xs" for k
  proof -
    have "\<forall>j<length (take k xs). getSinhalaOutput (snap j) = Inr (take k xs ! j)"
      using all that by simp
    from typing_loop_refines [OF this, of 0 "(0, [])"] that show ?thesis by simp
  qed
  have step: "typing_loop snap (Suc k) 0 (0, []) =
         Inr (if xs ! k \<noteq> prev \<and> xs ! k \<noteq> [] then (n + 1, xs ! k) else (n, prev))"
    if "k < length input" "typing_loop snap k 0 (0, []) = Inr (n, prev)" for k n prev
  proof -
    have k: "k < length xs" using that(1) assms(1) by simp
    have c: "count_updates (take k xs) (0, []) = (n, prev)" using pre [of k] k that(2) by simp
    have "typing_loop snap (Suc k) 0 (0, []) = Inr (count_updates (take (Suc k) xs) (0, []))"
      using pre [of "Suc k"] k by simp
    also have "take (Suc k) xs = take k xs @ [xs ! k]" using k by (rule take_Suc_conv_app_nth)
    finally show ?thesis by (simp add: count_updates_append c)
  qed
  have closed: "typing_loop snap (length input) 0 (0, []) =
      Inr (length (remdups_adj ([] # filter (\<lambda>s. s \<noteq> []) xs)) - 1,
           last ([] # filter (\<lambda>s. s \<noteq> []) xs))"
    using run count_updates_closed [of xs 0 "[]"] by simp
  have empty: "typing_loop snap (length input) 0 (0, []) = Inr (0, [])"
    if "\<forall>i<length input. xs ! i = []"
  proof -
    have "\<forall>s\<in>set xs. s = []" using that assms(1) by (auto simp: in_set_conv_nth)
    then show ?thesis using run by (simp add: count_updates_empty)
  qed
  have const: "typing_loop snap (length input) 0 (0, []) = Inr (1, c)"
    if "c \<noteq> [] \<and> input \<noteq> [] \<and> (\<forall>i<length input. xs ! i = c)" for c
  proof -
    have "\<forall>s\<in>set xs. s = c" using that assms(1) by (auto simp: in_set_conv_nth)
    moreover have "xs \<noteq> []" using that assms(1) by auto
    ultimately have "count_updates xs (0, []) = (1, c)"
      using that count_updates_constant [of c xs] by blast
    then show ?thesis using run by simp
  qed
  from run step closed empty const show ?thesis by blast
qed

text \<open>
  The samples \<open>a-ish\<close>, \<open>ab-ish\<close> give 2 updates, also after a first empty sample;
  two empty samples give none.
\<close>

theorem update_counting_rule_witness:
  "typing_loop (snapshots [showing [0x61, 0x2D, 0x69, 0x73, 0x68],
                           showing [0x61, 0x62, 0x2D, 0x69, 0x73, 0x68]])
     (length [0x61 :: code_unit, 0x62]) 0 (0, []) = Inr (2, [0x61, 0x62, 0x2D, 0x69, 0x73, 0x68]) \<and>
   typing_loop (snapshots [empty_page, showing [0x61, 0x2D, 0x69, 0x73, 0x68],
                           showing [0x61, 0x62, 0x2D, 0x69, 0x73, 0x68]])
     (length [0x20 :: code_unit, 0x61, 0x62]) 0 (0, []) = Inr (2, [0x61, 0x62, 0x2D, 0x69, 0x73, 0x68]) \<and>
   typing_loop (snapshots [empty_page, empty_page]) (length [0x61 :: code_unit, 0x62]) 0 (0, []) =
     Inr (0, [])"
proof -
  let ?a = "[0x61, 0x2D, 0x69, 0x73, 0x68] :: jsstring"
  let ?b = "[0x61, 0x62, 0x2D, 0x69, 0x73, 0x68] :: jsstring"
  let ?i2 = "[0x61, 0x62] :: jsstring"
  let ?i3 = "[0x20, 0x61, 0x62] :: jsstring"
  have 1: "\<forall>i<length ?i2. getSinhalaOutput (snapshots [showing ?a, showing ?b] i) = Inr ([?a, ?b] ! i)"
    by (simp add: snapshots_def less_Suc_eq showing_output trim_a_ish trim_ab_ish)
  have 2: "\<forall>i<length ?i3. getSinhalaOutput (snapshots [empty_page, showing ?a, showing ?b] i) =
      Inr ([[], ?a, ?b] ! i)"
    by (simp add: snapshots_def less_Suc_eq showing_output empty_page_output trim_a_ish trim_ab_ish)
  have 3: "\<forall>i<length ?i2. getSinhalaOutput (snapshots [empty_page, empty_page] i) = Inr ([[], []] ! i)"
    by (simp add: snapshots_def less_Suc_eq empty_page_output)
  have 4: "\<forall>i<length ?i2. [[], []] ! i = ([] :: jsstring)"
    by (simp add: less_Suc_eq)
  from update_counting_rule [of "[?a, ?b]" ?i2 "snapshots [showing ?a, showing ?b]", OF _ 1]
  have a: "typing_loop (snapshots [showing ?a, showing ?b]) (length ?i2) 0 (0, []) = Inr (2, ?b)"
    by simp
  from update_counting_rule [of "[[], ?a, ?b]" ?i3 "snapshots [empty_page, showing ?a, showing ?b]", OF _ 2]
  have b: "typing_loop (snapshots [empty_page, showing ?a, showing ?b]) (length ?i3) 0 (0, []) = Inr (2, ?b)"
    by simp
  from update_counting_rule [of "[[], []]" ?i2 "snapshots [empty_page, empty_page]", OF _ 3] 4
  have c: "typing_loop (snapshots [empty_page, empty_page]) (length ?i2) 0 (0, []) = Inr (0, [])"
    by simp
  from a b c show ?thesis by blast
qed

text \<open>
  C7 as stated fails: both samples are \<open>x\<close>, so they never change, and the loop counts
  one update.
\<close>

theorem unchanged_samples_counterexample:
  "getSinhalaOutput (snapshots [showing [0x78], showing [0x78]] 0) = Inr [0x78] \<and>
   getSinhalaOutput (snapshots [showing [0x78], showing [0x78]] 1) = Inr [0x78] \<and>
   typing_loop (snapshots [showing [0x78], showing [0x78]]) (length [0x61 :: code_unit, 0x62]) 0 (0, []) =
     Inr (1, [0x78])"
proof -
  have s: "\<forall>j<length [[0x78], [0x78 :: code_unit]].
      getSinhalaOutput (snapshots [showing [0x78], showing [0x78]] j) = Inr ([[0x78], [0x78]] ! j)"
    by (simp add: snapshots_def less_Suc_eq showing_output trim_x)
  from typing_loop_refines [OF s, of 0 "(0, [])"]
  have "typing_loop (snapshots [showing [0x78], showing [0x78]]) (length [0x61 :: code_unit, 0x62]) 0 (0, []) =
     Inr (1, [0x78])" by simp
  moreover from s have "getSinhalaOutput (snapshots [showing [0x78], showing [0x78]] 0) = Inr [0x78]"
    "getSinhalaOutput (snapshots [showing [0x78], showing [0x78]] 1) = Inr [0x78]"
    by (simp_all add: less_Suc_eq)
  ultimately show ?thesis by blast
qed

section \<open>The pass condition of the real-time test\<close>

text \<open>
  C8. The loop and the final sample always yield a count and a final output, and
  \<open>testPassed\<close> is true if and only if the count is above 0 and the final output is the
  expected output. With a count of 0 the test fails even when the expected output is the
  final output itself. \<open>Pos_UI_0001\<close> is this test on its own input and expected output.
\<close>

theorem realtime_pass_condition:
  "(\<exists>outputUpdates previousOutput finalOutput.
      typing_loop snap (length input) 0 (0, []) = Inr (outputUpdates, previousOutput) \<and>
      getSinhalaOutput finalPage = Inr finalOutput \<and>
      realtime_test input expected snap finalPage =
        Inr (0 < outputUpdates \<and> finalOutput = expected) \<and>
      (outputUpdates = 0 \<longrightarrow> realtime_test input finalOutput snap finalPage = Inr False)) \<and>
   Pos_UI_0001 snap finalPage = realtime_test ui_testInput ui_expectedOutput snap finalPage"
proof -
  obtain st where "typing_loop snap (length input) 0 (0, []) = Inr st"
    using typing_loop_total by blast
  then obtain n prev where l: "typing_loop snap (length input) 0 (0, []) = Inr (n, prev)"
    by (cases st) simp
  obtain fin where f: "getSinhalaOutput finalPage = Inr fin"
    using getSinhalaOutput_total by blast
  have "realtime_test input expected snap finalPage = Inr (0 < n \<and> fin = expected)"
    by (simp add: realtime_test_def l f)
  moreover have "n = 0 \<longrightarrow> realtime_test input fin snap finalPage = Inr False"
    by (simp add: realtime_test_def l f)
  ultimately show ?thesis using l f by (auto simp: Pos_UI_0001_def)
qed

theorem realtime_pass_condition_witness:
  "realtime_test [0x61, 0x62]
     [0x66, 0x75, 0x6C, 0x6C, 0x2D, 0x74, 0x72, 0x61, 0x6E, 0x73, 0x6C, 0x61, 0x74, 0x69, 0x6F, 0x6E]
     (snapshots [showing [0x61, 0x2D, 0x69, 0x73, 0x68], showing [0x61, 0x62, 0x2D, 0x69, 0x73, 0x68]])
     (showing [0x66, 0x75, 0x6C, 0x6C, 0x2D, 0x74, 0x72, 0x61, 0x6E, 0x73, 0x6C, 0x61, 0x74, 0x69, 0x6F, 0x6E])
     = Inr True \<and>
   realtime_test [0x61, 0x62]
     [0x66, 0x75, 0x6C, 0x6C, 0x2D, 0x74, 0x72, 0x61, 0x6E, 0x73, 0x6C, 0x61, 0x74, 0x69, 0x6F, 0x6E]
     (snapshots [empty_page, empty_page])
     (showing [0x66, 0x75, 0x6C, 0x6C, 0x2D, 0x74, 0x72, 0x61, 0x6E, 0x73, 0x6C, 0x61, 0x74, 0x69, 0x6F, 0x6E])
     = Inr False"
proof -
  let ?a = "[0x61, 0x2D, 0x69, 0x73, 0x68] :: jsstring"
  let ?b = "[0x61, 0x62, 0x2D, 0x69, 0x73, 0x68] :: jsstring"
  let ?f = "[0x66, 0x75, 0x6C, 0x6C, 0x2D, 0x74, 0x72, 0x61, 0x6E, 0x73, 0x6C, 0x61, 0x74, 0x69, 0x6F, 0x6E] :: jsstring"
  let ?i = "[0x61, 0x62] :: jsstring"
  have s1: "\<forall>j<length [?a, ?b]. getSinhalaOutput (snapshots [showing ?a, showing ?b] j) = Inr ([?a, ?b] ! j)"
    by (simp add: snapshots_def less_Suc_eq showing_output trim_a_ish trim_ab_ish)
  from typing_loop_refines [OF s1, of 0 "(0, [])"]
  have l1: "typing_loop (snapshots [showing ?a, showing ?b]) (length ?i) 0 (0, []) = Inr (2, ?b)"
    by simp
  have s2: "\<forall>j<length [[], [] :: jsstring]. getSinhalaOutput (snapshots [empty_page, empty_page] j) = Inr ([[], []] ! j)"
    by (simp add: snapshots_def less_Suc_eq empty_page_output)
  from typing_loop_refines [OF s2, of 0 "(0, [])"]
  have l2: "typing_loop (snapshots [empty_page, empty_page]) (length ?i) 0 (0, []) = Inr (0, [])"
    by simp
  have f: "getSinhalaOutput (showing ?f) = Inr ?f"
    by (simp only: showing_output trim_full)
  from realtime_pass_condition [of "snapshots [showing ?a, showing ?b]" ?i "showing ?f" ?f]
  have a: "realtime_test ?i ?f (snapshots [showing ?a, showing ?b]) (showing ?f) = Inr True"
    unfolding l1 f by auto
  from realtime_pass_condition [of "snapshots [empty_page, empty_page]" ?i "showing ?f" ?f]
  have b: "realtime_test ?i ?f (snapshots [empty_page, empty_page]) (showing ?f) = Inr False"
    unfolding l2 f by auto
  from a b show ?thesis by blast
qed

section \<open>The Sinhala pattern\<close>

lemma block_not_space: "in_sinhala_block c \<Longrightarrow> \<not> is_white_space c"
  by (auto simp: in_sinhala_block_def is_white_space_def word_le_nat_alt)

lemma unit_of_nat_le:
  "n < 65536 \<Longrightarrow> ((of_nat n :: code_unit) \<le> numeral k) = (n \<le> unat (numeral k :: code_unit))"
  "n < 65536 \<Longrightarrow> ((numeral k :: code_unit) \<le> of_nat n) = (unat (numeral k :: code_unit) \<le> n)"
  by (simp_all add: word_le_nat_alt unat_of_nat)

lemma bmp_unit_in_block:
  assumes "cp < 0x10000"
  shows "in_sinhala_block (of_nat cp) \<longleftrightarrow> 0x0D80 \<le> cp \<and> cp \<le> 0x0DFF"
  using assms by (simp add: in_sinhala_block_def unit_of_nat_le)

lemma high_unit_not_in_block:
  "0xD800 \<le> n \<Longrightarrow> n < 65536 \<Longrightarrow> \<not> in_sinhala_block (of_nat n)"
  by (simp add: in_sinhala_block_def unit_of_nat_le)

lemma surrogates_not_in_block:
  assumes "0x10000 \<le> cp" "cp \<le> 0x10FFFF"
  shows "\<not> in_sinhala_block (of_nat (0xD800 + (cp - 0x10000) div 0x400))"
    and "\<not> in_sinhala_block (of_nat (0xDC00 + (cp - 0x10000) mod 0x400))"
proof -
  have "(cp - 0x10000) div 0x400 < 0x400" using assms by simp
  then show "\<not> in_sinhala_block (of_nat (0xD800 + (cp - 0x10000) div 0x400))"
    by (intro high_unit_not_in_block) simp_all
  show "\<not> in_sinhala_block (of_nat (0xDC00 + (cp - 0x10000) mod 0x400))"
    by (intro high_unit_not_in_block) simp_all
qed

lemma code_point_in_block:
  assumes "cp \<le> 0x10FFFF"
  shows "(\<exists>u\<in>set (fromCodePoint cp). in_sinhala_block u) \<longleftrightarrow> 0x0D80 \<le> cp \<and> cp \<le> 0x0DFF"
proof (cases "cp < 0x10000")
  case True
  then show ?thesis by (simp add: fromCodePoint_def bmp_unit_in_block)
next
  case False
  then have "0x10000 \<le> cp" by simp
  from surrogates_not_in_block [OF this assms] False show ?thesis
    by (simp add: fromCodePoint_def)
qed

lemma js_match_Some_iff:
  "(\<exists>m. js_match (OneOrMore cls) s = Some m) \<longleftrightarrow> (\<exists>u\<in>set s. class_accepts cls u)"
proof (cases "dropWhile (\<lambda>c. \<not> class_accepts cls c) s")
  case Nil
  then have "\<forall>u\<in>set s. \<not> class_accepts cls u" by (simp add: dropWhile_eq_Nil_conv)
  moreover have "js_match (OneOrMore cls) s = None"
    by (simp only: js_match.simps Nil list.case)
  ultimately show ?thesis by simp
next
  case (Cons r rs)
  have "class_accepts cls r"
    using hd_dropWhile [of "\<lambda>c. \<not> class_accepts cls c" s] Cons by simp
  moreover have "r \<in> set s"
    using set_dropWhileD [of r "\<lambda>c. \<not> class_accepts cls c" s] Cons by simp
  ultimately show ?thesis using Cons by auto
qed

lemma set_trim: "set (trim m) \<subseteq> set m"
proof
  fix x assume "x \<in> set (trim m)"
  then have "x \<in> set (dropWhile is_white_space (rev (dropWhile is_white_space m)))"
    by (simp add: trim_def)
  then have "x \<in> set (dropWhile is_white_space m)"
    using set_dropWhileD by fastforce
  then show "x \<in> set m" by (rule set_dropWhileD)
qed

lemma tier3_units:
  assumes "tier3 page = Inr (Some r)"
  shows "\<forall>u\<in>set r. in_sinhala_block u \<or> is_white_space u"
proof -
  from assms obtain b m where "js_match (OneOrMore sinhala_space_class) b = Some m" "r = trim m"
    by (auto simp: tier3_def split: sum.splits option.splits)
  with js_match_accepted [of sinhala_space_class b m] set_trim [of m]
  show ?thesis by (auto simp: space_class_iff)
qed

lemma tier3_found_iff:
  assumes "textContent (page (Css ''body'')) = Inr (Some b)"
  shows "(\<exists>r. tier3 page = Inr (Some r)) \<longleftrightarrow> (\<exists>u\<in>set b. in_sinhala_block u \<or> is_white_space u)"
proof -
  have "(\<exists>r. tier3 page = Inr (Some r)) \<longleftrightarrow> (\<exists>m. js_match (OneOrMore sinhala_space_class) b = Some m)"
    using assms by (auto simp: tier3_def split: option.splits)
  then show ?thesis by (simp only: js_match_Some_iff space_class_iff)
qed

text \<open>
  C9. The class of the first tier accepts a code unit if and only if it lies in
  U+0D80 to U+0DFF, both ends included; the class of the third tier accepts these and
  white space, and no white space lies in the range. Read on code points: a code point up
  to U+10FFFF has a code unit that the class accepts if and only if the code point itself
  lies in the range, so no surrogate pair matches. The first tier reads the locator of this
  very pattern; what the third tier returns is made of code units of the range and white
  space, and it returns something exactly when the body text has such a code unit.
\<close>

theorem sinhala_pattern_range:
  "(class_accepts sinhala_class c \<longleftrightarrow> 0x0D80 \<le> c \<and> c \<le> 0x0DFF) \<and>
   (class_accepts sinhala_space_class c \<longleftrightarrow> (0x0D80 \<le> c \<and> c \<le> 0x0DFF) \<or> is_white_space c) \<and>
   \<not> (is_white_space c \<and> 0x0D80 \<le> c \<and> c \<le> 0x0DFF) \<and>
   (\<forall>cp\<le>0x10FFFF. (\<exists>u\<in>set (fromCodePoint cp). class_accepts sinhala_class u) \<longleftrightarrow>
      0x0D80 \<le> cp \<and> cp \<le> 0x0DFF) \<and>
   (\<forall>page page'. page (Text (OneOrMore [Range 0x0D80 0x0DFF])) = page' (Text (OneOrMore [Range 0x0D80 0x0DFF])) \<longrightarrow>
      tier1 page = tier1 page') \<and>
   (\<forall>page r. tier3 page = Inr (Some r) \<longrightarrow>
      (\<forall>u\<in>set r. (0x0D80 \<le> u \<and> u \<le> 0x0DFF) \<or> is_white_space u)) \<and>
   (\<forall>page b. textContent (page (Css ''body'')) = Inr (Some b) \<longrightarrow>
      ((\<exists>r. tier3 page = Inr (Some r)) \<longleftrightarrow>
       (\<exists>u\<in>set b. (0x0D80 \<le> u \<and> u \<le> 0x0DFF) \<or> is_white_space u)))"
proof (intro conjI allI impI)
  show "class_accepts sinhala_class c \<longleftrightarrow> 0x0D80 \<le> c \<and> c \<le> 0x0DFF"
    by (simp add: sinhala_class_def)
  show "class_accepts sinhala_space_class c \<longleftrightarrow> (0x0D80 \<le> c \<and> c \<le> 0x0DFF) \<or> is_white_space c"
    by (simp add: sinhala_space_class_def)
  show "\<not> (is_white_space c \<and> 0x0D80 \<le> c \<and> c \<le> 0x0DFF)"
    using block_not_space [of c] by (auto simp: in_sinhala_block_def)
next
  fix cp :: nat assume "cp \<le> 0x10FFFF"
  then show "(\<exists>u\<in>set (fromCodePoint cp). class_accepts sinhala_class u) \<longleftrightarrow> 0x0D80 \<le> cp \<and> cp \<le> 0x0DFF"
    using code_point_in_block [of cp] by (simp only: sinhala_class_iff)
next
  fix page page' :: page
  assume "page (Text (OneOrMore [Range 0x0D80 0x0DFF])) = page' (Text (OneOrMore [Range 0x0D80 0x0DFF]))"
  then show "tier1 page = tier1 page'" by (simp add: tier1_def sinhala_class_def)
next
  fix page r assume "tier3 page = Inr (Some r)"
  then show "\<forall>u\<in>set r. (0x0D80 \<le> u \<and> u \<le> 0x0DFF) \<or> is_white_space u"
    using tier3_units [of page r] by (simp add: in_sinhala_block_def)
next
  fix page b assume "textContent (page (Css ''body'')) = Inr (Some b)"
  then show "(\<exists>r. tier3 page = Inr (Some r)) \<longleftrightarrow>
       (\<exists>u\<in>set b. (0x0D80 \<le> u \<and> u \<le> 0x0DFF) \<or> is_white_space u)"
    using tier3_found_iff [of page b] by (simp add: in_sinhala_block_def)
qed


theorem sinhala_pattern_range_witness:
  "class_accepts sinhala_class 0x0D80 \<and> class_accepts sinhala_class 0x0DFF \<and>
   \<not> class_accepts sinhala_class 0x0D7F \<and> \<not> class_accepts sinhala_class 0x0E00 \<and>
   \<not> class_accepts sinhala_class 0x20 \<and> class_accepts sinhala_space_class 0x20 \<and>
   fromCodePoint 0x0D9A = [0x0D9A] \<and> class_accepts sinhala_class 0x0D9A \<and>
   fromCodePoint 0x1F600 = [0xD83D, 0xDE00] \<and>
   \<not> class_accepts sinhala_class 0xD83D \<and> \<not> class_accepts sinhala_class 0xDE00 \<and>
   tier1 (chrome_page(Css ''body'' := broken)) = tier1 chrome_page \<and>
   tier3 two_areas_page = Inr (Some [0x0D9A])"
proof -
  note r1 = sinhala_pattern_range [THEN conjunct1]
  note r2 = sinhala_pattern_range [THEN conjunct2, THEN conjunct1]
  note r4 = sinhala_pattern_range [of 0, THEN conjunct2, THEN conjunct2, THEN conjunct2, THEN conjunct1]
  note r5 = sinhala_pattern_range [of 0, THEN conjunct2, THEN conjunct2, THEN conjunct2,
      THEN conjunct2, THEN conjunct1]
  note r7 = sinhala_pattern_range [of 0, THEN conjunct2, THEN conjunct2, THEN conjunct2,
      THEN conjunct2, THEN conjunct2, THEN conjunct2]
  have a: "class_accepts sinhala_class 0x0D80" "class_accepts sinhala_class 0x0DFF"
    "\<not> class_accepts sinhala_class 0x0D7F" "\<not> class_accepts sinhala_class 0x0E00"
    "\<not> class_accepts sinhala_class 0x20" "class_accepts sinhala_class 0x0D9A"
    by (simp_all add: r1)
  have b: "class_accepts sinhala_space_class 0x20"
    by (simp add: r2 is_white_space_def)
  have c1: "fromCodePoint 0x0D9A = [0x0D9A]" by (simp add: fromCodePoint_def)
  have c2: "fromCodePoint 0x1F600 = [0xD83D, 0xDE00]" by (simp add: fromCodePoint_def)
  have "(0x1F600 :: nat) \<le> 0x10FFFF" by simp
  with r4 have "(\<exists>u\<in>set (fromCodePoint 0x1F600). class_accepts sinhala_class u) \<longleftrightarrow>
      (0x0D80 :: nat) \<le> 0x1F600 \<and> (0x1F600 :: nat) \<le> 0x0DFF" by blast
  then have d: "\<not> class_accepts sinhala_class 0xD83D" "\<not> class_accepts sinhala_class 0xDE00"
    unfolding c2 by simp_all
  have "(chrome_page(Css ''body'' := broken)) (Text (OneOrMore [Range 0x0D80 0x0DFF])) =
      chrome_page (Text (OneOrMore [Range 0x0D80 0x0DFF]))" by simp
  with r5 have e: "tier1 (chrome_page(Css ''body'' := broken)) = tier1 chrome_page" by blast
  have t: "textContent (two_areas_page (Css ''body'')) = Inr (Some [0x0D9A])"
    by (simp add: two_areas_page_def element_def)
  have "\<exists>u\<in>set [0x0D9A :: code_unit]. (0x0D80 \<le> u \<and> u \<le> 0x0DFF) \<or> is_white_space u" by simp
  with r7 t have "\<exists>r. tier3 two_areas_page = Inr (Some r)" by blast
  moreover have "tier3 two_areas_page = Inr (Some [0x0D9A])"
    by (simp add: tier3_def t sinhala_space_class_def trim_def is_white_space_def)
  ultimately show ?thesis using a b c1 c2 d e by simp
qed

section \<open>White space before the Sinhala text of the body\<close>

lemma takeWhile_stop:
  "\<not> P x \<Longrightarrow> takeWhile P (ys @ x # zs) = takeWhile P ys"
  by (induction ys) simp_all

lemma first_run_before:
  assumes "w \<in> set A" "class_accepts cls w" "\<not> class_accepts cls x"
  shows "\<exists>m. js_match (OneOrMore cls) (A @ x # rest) = Some m \<and> m \<noteq> [] \<and> set m \<subseteq> set A \<and>
           (\<forall>c\<in>set m. class_accepts cls c)"
proof -
  let ?N = "\<lambda>c. \<not> class_accepts cls c"
  have d: "dropWhile ?N (A @ x # rest) = dropWhile ?N A @ x # rest"
    using assms(1,2) by (intro dropWhile_append1 [of w]) simp_all
  obtain m where m: "js_match (OneOrMore cls) (A @ x # rest) = Some m"
    using js_match_Some_iff [of cls "A @ x # rest"] assms(1,2) by auto
  then have "m = takeWhile (class_accepts cls) (dropWhile ?N (A @ x # rest))"
    by (auto split: list.splits)
  also have "\<dots> = takeWhile (class_accepts cls) (dropWhile ?N A @ x # rest)"
    by (simp only: d)
  also have "\<dots> = takeWhile (class_accepts cls) (dropWhile ?N A)"
    using assms(3) by (rule takeWhile_stop)
  finally have "m = takeWhile (class_accepts cls) (dropWhile ?N A)" .
  then have "set m \<subseteq> set A"
    using set_takeWhileD set_dropWhileD by fast
  with m js_match_accepted [OF m] show ?thesis by blast
qed

text \<open>
  C10, amended. The pattern of the third tier also matches a run of white space alone.
  When the first two tiers find nothing and, in the body text, a white space character
  stands before the first Sinhala character with at least one character between them that
  is neither white space nor Sinhala, the first match is a run of white space and
  \<open>getSinhalaOutput\<close> returns the empty string, not the Sinhala text further on.
\<close>

theorem whitespace_run_first:
  assumes "try_catch (tier1 page) = Inr None"
    and "try_catch (tier2 page) = Inr None"
    and "textContent (page (Css ''body'')) = Inr (Some (pre @ w # mid @ s # post))"
    and "is_white_space w"
    and "in_sinhala_block s"
    and "\<forall>c\<in>set (pre @ w # mid). \<not> in_sinhala_block c"
    and "\<exists>x\<in>set mid. \<not> in_sinhala_block x \<and> \<not> is_white_space x"
  shows "\<exists>m. js_match (OneOrMore sinhala_space_class) (pre @ w # mid @ s # post) = Some m \<and>
           m \<noteq> [] \<and> (\<forall>c\<in>set m. is_white_space c) \<and> getSinhalaOutput page = Inr []"
proof -
  from assms(7) obtain x where x: "x \<in> set mid" "\<not> class_accepts sinhala_space_class x"
    by (auto simp: space_class_iff)
  then obtain m1 m2 where mid: "mid = m1 @ x # m2" by (auto simp: in_set_conv_decomp)
  let ?A = "pre @ w # m1"
  have body: "pre @ w # mid @ s # post = ?A @ x # (m2 @ s # post)" by (simp add: mid)
  have "w \<in> set ?A" by simp
  moreover have "class_accepts sinhala_space_class w" using assms(4) by (simp add: space_class_iff)
  ultimately obtain m where m: "js_match (OneOrMore sinhala_space_class) (?A @ x # (m2 @ s # post)) = Some m"
    "m \<noteq> []" "set m \<subseteq> set ?A" "\<forall>c\<in>set m. class_accepts sinhala_space_class c"
    using first_run_before [OF _ _ x(2), of w ?A "m2 @ s # post"] by blast
  have "\<forall>c\<in>set ?A. \<not> in_sinhala_block c" using assms(6) by (auto simp: mid)
  with m(3,4) have ws: "\<forall>c\<in>set m. is_white_space c" by (auto simp: space_class_iff)
  then have "trim m = []" by (rule trim_white)
  then have "tier3 page = Inr (Some [])"
    using assms(3) m(1) by (simp add: tier3_def body)
  then have "getSinhalaOutput page = Inr []"
    using assms(1,2) by (simp add: getSinhalaOutput_def)
  with m(1,2) ws show ?thesis unfolding body by blast
qed


theorem whitespace_run_first_witness:
  "try_catch (tier1 space_latin_sinhala_page) = Inr None \<and>
   try_catch (tier2 space_latin_sinhala_page) = Inr None \<and>
   textContent (space_latin_sinhala_page (Css ''body'')) = Inr (Some [0x20, 0x61, 0x0D9A]) \<and>
   js_match (OneOrMore sinhala_space_class) [0x20, 0x61, 0x0D9A] = Some [0x20] \<and>
   getSinhalaOutput space_latin_sinhala_page = Inr []"
proof -
  have t1: "try_catch (tier1 space_latin_sinhala_page) = Inr None"
    by (simp add: tier1_def space_latin_sinhala_page_def broken_page_def broken_def)
  have t2: "try_catch (tier2 space_latin_sinhala_page) = Inr None"
    by (simp add: tier2_def space_latin_sinhala_page_def broken_page_def broken_def)
  have b: "textContent (space_latin_sinhala_page (Css ''body'')) = Inr (Some ([] @ 0x20 # [0x61] @ 0x0D9A # []))"
    by (simp add: space_latin_sinhala_page_def element_def)
  have w: "is_white_space 0x20" by (simp add: is_white_space_def)
  have s: "in_sinhala_block 0x0D9A" by (simp add: in_sinhala_block_def)
  have n: "\<forall>c\<in>set ([] @ 0x20 # [0x61 :: code_unit]). \<not> in_sinhala_block c"
    by (simp add: in_sinhala_block_def)
  have x: "\<exists>x\<in>set [0x61 :: code_unit]. \<not> in_sinhala_block x \<and> \<not> is_white_space x"
    by (simp add: in_sinhala_block_def is_white_space_def)
  from whitespace_run_first [OF t1 t2 b w s n x]
  have g: "getSinhalaOutput space_latin_sinhala_page = Inr []" by blast
  have m: "js_match (OneOrMore sinhala_space_class) [0x20, 0x61, 0x0D9A] = Some [0x20]"
    by (simp add: sinhala_space_class_def is_white_space_def)
  from t1 t2 b g m show ?thesis by simp
qed

text \<open>
  C10 as stated fails: a space stands before the first Sinhala character of the body, the
  first two tiers find nothing, and the match runs on through the Sinhala character, which
  is returned.
\<close>

theorem whitespace_before_sinhala_counterexample:
  "try_catch (tier1 space_sinhala_page) = Inr None \<and>
   try_catch (tier2 space_sinhala_page) = Inr None \<and>
   textContent (space_sinhala_page (Css ''body'')) = Inr (Some [0x20, 0x0D9A]) \<and>
   is_white_space 0x20 \<and> \<not> class_accepts sinhala_class 0x20 \<and> class_accepts sinhala_class 0x0D9A \<and>
   js_match (OneOrMore sinhala_space_class) [0x20, 0x0D9A] = Some [0x20, 0x0D9A] \<and>
   getSinhalaOutput space_sinhala_page = Inr [0x0D9A]"
proof -
  have t1: "tier1 space_sinhala_page = Inl LibraryError"
    by (simp add: tier1_def space_sinhala_page_def broken_page_def broken_def)
  have t2: "tier2 space_sinhala_page = Inl LibraryError"
    by (simp add: tier2_def space_sinhala_page_def broken_page_def broken_def)
  have b: "textContent (space_sinhala_page (Css ''body'')) = Inr (Some [0x20, 0x0D9A])"
    by (simp add: space_sinhala_page_def element_def)
  have w: "is_white_space 0x20" by (simp add: is_white_space_def)
  have c: "\<not> class_accepts sinhala_class 0x20" "class_accepts sinhala_class 0x0D9A"
    by (simp_all add: sinhala_class_def)
  have m: "js_match (OneOrMore sinhala_space_class) [0x20, 0x0D9A] = Some [0x20, 0x0D9A]"
    by (simp add: sinhala_space_class_def is_white_space_def)
  have t: "trim [0x20, 0x0D9A] = [0x0D9A]" by (simp add: trim_def is_white_space_def)
  have t3: "tier3 space_sinhala_page = Inr (Some [0x0D9A])"
    by (simp only: tier3_def b m t sum.case option.case)
  have g: "getSinhalaOutput space_sinhala_page = Inr [0x0D9A]"
    by (simp add: getSinhalaOutput_def t1 t2 t3)
  from t1 t2 b w c m g show ?thesis by simp
qed

end
